theory Spec2Isabelle
  imports Complex_Main "HOL-Library.Word"
begin

unbundle bit_operations_syntax

section \<open>Data model\<close>

text \<open>
  The exceptions the detection and decision code can raise. \<open>CvError\<close> is OpenCV's
  \<open>cv2.error\<close>, \<open>CaptureError\<close> stands for whatever the screen-capture backend raises.
\<close>

datatype error =
    KeyError
  | FileNotFoundError
  | RuntimeError
  | ZeroDivisionError
  | ValueError
  | CvError
  | CaptureError

text \<open>
  A two-dimensional numpy array: its shape and the element at every (row, column).
  Only the elements at positions inside the shape belong to the array.
\<close>

record 'a ndarray =
  nrows :: nat
  ncols :: nat
  elem :: "nat \<Rightarrow> nat \<Rightarrow> 'a"

type_synonym u8 = "8 word"
type_synonym bgr = "u8 \<times> u8 \<times> u8"
type_synonym bgra = "u8 \<times> u8 \<times> u8 \<times> u8"
type_synonym hsv = "u8 \<times> u8 \<times> u8"

definition positions :: "'a ndarray \<Rightarrow> (nat \<times> nat) list" where
  "positions a = List.product [0..<nrows a] [0..<ncols a]"

definition size_nd :: "'a ndarray \<Rightarrow> nat" where
  "size_nd a = nrows a * ncols a"

definition map_nd :: "('a \<Rightarrow> 'b) \<Rightarrow> 'a ndarray \<Rightarrow> 'b ndarray" where
  "map_nd f a = \<lparr>nrows = nrows a, ncols = ncols a, elem = (\<lambda>i j. f (elem a i j))\<rparr>"

text \<open>config_loader.py: the frozen dataclasses of the configuration.\<close>

record Point =
  x :: int
  y :: int

record Region =
  left :: int
  top_r :: int
  width :: int
  height :: int

record HSVRange =
  lower :: "int \<times> int \<times> int"
  upper :: "int \<times> int \<times> int"

record TemplateConfig =
  template_name :: string
  path :: string
  threshold :: real

record TradeConfig =
  trade_name :: string
  region :: Region
  start_button :: Point
  start_template :: "string option"
  start_gray_template :: "string option"
  red_ratio_threshold :: real

record TimingConfig =
  timing_cycle_delay :: real
  collect_interval :: real
  refresh_interval :: real
  post_click_delay :: real

record ClickConfig =
  use_win32 :: bool
  win32_press_duration :: int
  move_cursor_back :: bool

record AppConfig =
  monitor :: Region
  trades :: "TradeConfig list"
  collect_button :: Point
  refresh_button :: Point
  hsv_ranges :: "HSVRange list"
  templates :: "(string \<times> TemplateConfig) list"
  timing :: TimingConfig
  clicks :: ClickConfig
  cycle_delay :: real

text \<open>detection.py: \<open>TradeStatus\<close>.\<close>

record TradeStatus =
  name :: string
  red_ratio :: real
  has_red_gem :: bool
  start_active :: "bool option"
  start_disabled :: "bool option"
  template_score :: "real option"

section \<open>ScreenGrabber\<close>

text \<open>
  \<open>ScreenGrabber._bounded_region\<close>: the dictionary with the keys left, top, width and
  height is a \<open>Region\<close>.
\<close>

definition ScreenGrabber_bounded_region :: "Region \<Rightarrow> Region \<Rightarrow> Region" where
  "ScreenGrabber_bounded_region mon reg =
     (let l = max (left mon) (left reg);
          t = max (top_r mon) (top_r reg);
          r = min (left mon + width mon) (left reg + width reg);
          b = min (top_r mon + height mon) (top_r reg + height reg);
          w = max 1 (r - l);
          h = max 1 (b - t)
      in \<lparr>left = l, top_r = t, width = w, height = h\<rparr>)"

text \<open>A region lies within the monitor when none of its four edges leaves it.\<close>

definition within_monitor :: "Region \<Rightarrow> Region \<Rightarrow> bool" where
  "within_monitor mon r \<longleftrightarrow>
     left mon \<le> left r \<and> top_r mon \<le> top_r r \<and>
     left r + width r \<le> left mon + width mon \<and>
     top_r r + height r \<le> top_r mon + height mon"

text \<open>
  The OpenCV colour conversions used by the code work pixel by pixel and reject an empty
  source array with \<open>cv2.error\<close>.
\<close>

definition cvtColor :: "('a \<Rightarrow> 'b) \<Rightarrow> 'a ndarray \<Rightarrow> error + 'b ndarray" where
  "cvtColor f src = (if size_nd src = 0 then Inl CvError else Inr (map_nd f src))"

definition COLOR_BGRA2BGR :: "bgra \<Rightarrow> bgr" where
  "COLOR_BGRA2BGR p = (case p of (b, g, r, a) \<Rightarrow> (b, g, r))"

text \<open>
  \<open>ScreenGrabber.grab\<close>: \<open>sct_grab\<close> is the capture backend (\<open>mss\<close>), which returns the
  pixels of the region it is given or raises.
\<close>

definition ScreenGrabber_grab ::
  "(Region \<Rightarrow> error + bgra ndarray) \<Rightarrow> Region \<Rightarrow> Region \<Rightarrow> error + bgr ndarray" where
  "ScreenGrabber_grab sct_grab mon reg =
     (case sct_grab (ScreenGrabber_bounded_region mon reg) of
        Inl e \<Rightarrow> Inl e
      | Inr raw \<Rightarrow> cvtColor COLOR_BGRA2BGR raw)"

section \<open>ColorDetector\<close>

text \<open>
  \<open>cv2.inRange\<close>: 255 where every channel lies between the bounds, both inclusive,
  0 elsewhere.
\<close>

definition in_bounds :: "hsv \<Rightarrow> int \<times> int \<times> int \<Rightarrow> int \<times> int \<times> int \<Rightarrow> bool" where
  "in_bounds p lo hi =
     (case p of (h, s, v) \<Rightarrow> case lo of (l0, l1, l2) \<Rightarrow> case hi of (u0, u1, u2) \<Rightarrow>
        l0 \<le> uint h \<and> uint h \<le> u0 \<and> l1 \<le> uint s \<and> uint s \<le> u1 \<and>
        l2 \<le> uint v \<and> uint v \<le> u2)"

definition inRange :: "hsv ndarray \<Rightarrow> int \<times> int \<times> int \<Rightarrow> int \<times> int \<times> int \<Rightarrow> u8 ndarray" where
  "inRange src lo hi = map_nd (\<lambda>p. if in_bounds p lo hi then 255 else 0) src"

definition zeros :: "nat \<Rightarrow> nat \<Rightarrow> u8 ndarray" where
  "zeros r c = \<lparr>nrows = r, ncols = c, elem = (\<lambda>i j. 0)\<rparr>"

text \<open>\<open>cv2.bitwise_or(mask, section, mask)\<close>: the destination is the first operand.\<close>

definition bitwise_or :: "u8 ndarray \<Rightarrow> u8 ndarray \<Rightarrow> u8 ndarray" where
  "bitwise_or m s = m\<lparr>elem := (\<lambda>i j. elem m i j OR elem s i j)\<rparr>"

definition count_nonzero :: "u8 ndarray \<Rightarrow> nat" where
  "count_nonzero m = length (filter (\<lambda>(i, j). elem m i j \<noteq> 0) (positions m))"

text \<open>The loop of \<open>red_ratio\<close> over the configured ranges.\<close>

fun mask_ranges :: "hsv ndarray \<Rightarrow> HSVRange list \<Rightarrow> u8 ndarray \<Rightarrow> u8 ndarray" where
  "mask_ranges src [] msk = msk"
| "mask_ranges src (r # rs) msk =
     mask_ranges src rs (bitwise_or msk (inRange src (lower r) (upper r)))"

text \<open>
  \<open>ColorDetector.red_ratio\<close>. \<open>bgr2hsv\<close> is OpenCV's conversion of one pixel
  (\<open>cv2.COLOR_BGR2HSV\<close>). Python's float division raises on a zero divisor. The quotient
  of the two counts is taken in the reals.
\<close>

definition ColorDetector_red_ratio ::
  "(bgr \<Rightarrow> hsv) \<Rightarrow> HSVRange list \<Rightarrow> bgr ndarray \<Rightarrow> error + real" where
  "ColorDetector_red_ratio bgr2hsv ranges frame_bgr =
     (case cvtColor bgr2hsv frame_bgr of
        Inl e \<Rightarrow> Inl e
      | Inr src \<Rightarrow>
          (let msk = mask_ranges src ranges (zeros (nrows src) (ncols src))
           in if size_nd msk = 0 then Inl ZeroDivisionError
              else Inr (real (count_nonzero msk) / real (size_nd msk))))"

definition ColorDetector_has_red ::
  "(bgr \<Rightarrow> hsv) \<Rightarrow> HSVRange list \<Rightarrow> bgr ndarray \<Rightarrow> real \<Rightarrow> error + bool" where
  "ColorDetector_has_red bgr2hsv ranges frame_bgr thr =
     (case ColorDetector_red_ratio bgr2hsv ranges frame_bgr of
        Inl e \<Rightarrow> Inl e
      | Inr ratio \<Rightarrow> Inr (ratio \<ge> thr))"

section \<open>The environment of one call\<close>

text \<open>
  What the code reads from outside the program: the per-pixel colour conversions and the
  correlation score of OpenCV (the score of \<open>cv2.TM_CCOEFF_NORMED\<close> for a frame, a
  template and the row and column of an offset), the capture backend, and the file system
  (\<open>Path.exists\<close>, and \<open>cv2.imread\<close> with \<open>IMREAD_GRAYSCALE\<close>, which returns
  \<open>None\<close> for a file it cannot decode).
\<close>

record env =
  COLOR_BGR2HSV :: "bgr \<Rightarrow> hsv"
  COLOR_BGR2GRAY :: "bgr \<Rightarrow> u8"
  TM_CCOEFF_NORMED :: "u8 ndarray \<Rightarrow> u8 ndarray \<Rightarrow> nat \<Rightarrow> nat \<Rightarrow> real"
  sct_grab :: "Region \<Rightarrow> error + bgra ndarray"
  path_exists :: "string \<Rightarrow> bool"
  imread :: "string \<Rightarrow> u8 ndarray option"

section \<open>TemplateMatcher\<close>

record TemplateMatcher =
  matcher_templates :: "(string \<times> TemplateConfig) list"
  cache :: "string \<rightharpoonup> (u8 ndarray \<times> real)"

definition TemplateMatcher_init :: "(string \<times> TemplateConfig) list \<Rightarrow> TemplateMatcher" where
  "TemplateMatcher_init template_configs =
     \<lparr>matcher_templates = template_configs, cache = Map.empty\<rparr>"

definition TemplateMatcher_is_configured :: "TemplateMatcher \<Rightarrow> bool" where
  "TemplateMatcher_is_configured tm \<longleftrightarrow> matcher_templates tm \<noteq> []"

text \<open>
  \<open>TemplateMatcher._load_template\<close> returns its result, or the exception it raises,
  together with the matcher as the call leaves it.
\<close>

definition TemplateMatcher_load_template ::
  "env \<Rightarrow> string \<Rightarrow> TemplateMatcher \<Rightarrow> (error + (u8 ndarray \<times> real)) \<times> TemplateMatcher" where
  "TemplateMatcher_load_template ev nm tm =
     (case map_of (matcher_templates tm) nm of
        None \<Rightarrow> (Inl KeyError, tm)
      | Some config \<Rightarrow>
          (case cache tm nm of
             Some entry \<Rightarrow> (Inr entry, tm)
           | None \<Rightarrow>
               if \<not> path_exists ev (path config) then (Inl FileNotFoundError, tm)
               else (case imread ev (path config) of
                       None \<Rightarrow> (Inl RuntimeError, tm)
                     | Some img \<Rightarrow>
                         (Inr (img, threshold config),
                          tm\<lparr>cache := (cache tm)(nm \<mapsto> (img, threshold config))\<rparr>))))"

text \<open>
  \<open>cv2.matchTemplate\<close> gives one score for every offset at which the template fits in
  the frame, and rejects a template larger than the frame. \<open>cv2.minMaxLoc\<close> is used for
  the largest value of that array only.
\<close>

definition matchTemplate :: "env \<Rightarrow> u8 ndarray \<Rightarrow> u8 ndarray \<Rightarrow> error + real ndarray" where
  "matchTemplate ev img templ =
     (if nrows img < nrows templ \<or> ncols img < ncols templ then Inl CvError
      else Inr \<lparr>nrows = nrows img - nrows templ + 1,
                ncols = ncols img - ncols templ + 1,
                elem = TM_CCOEFF_NORMED ev img templ\<rparr>)"

definition minMaxLoc_max :: "real ndarray \<Rightarrow> error + real" where
  "minMaxLoc_max res =
     (case map (\<lambda>(i, j). elem res i j) (positions res) of
        [] \<Rightarrow> Inl CvError
      | v # vs \<Rightarrow> Inr (fold max vs v))"

definition TemplateMatcher_match ::
  "env \<Rightarrow> bgr ndarray \<Rightarrow> string \<Rightarrow> TemplateMatcher \<Rightarrow> (error + (bool \<times> real)) \<times> TemplateMatcher" where
  "TemplateMatcher_match ev frame_bgr template_nm tm =
     (case TemplateMatcher_load_template ev template_nm tm of
        (Inl e, tm1) \<Rightarrow> (Inl e, tm1)
      | (Inr (template, thr), tm1) \<Rightarrow>
          (case cvtColor (COLOR_BGR2GRAY ev) frame_bgr of
             Inl e \<Rightarrow> (Inl e, tm1)
           | Inr frame_gray \<Rightarrow>
               if nrows frame_gray < nrows template \<or> ncols frame_gray < ncols template
               then (Inr (False, 0), tm1)
               else (case matchTemplate ev frame_gray template of
                       Inl e \<Rightarrow> (Inl e, tm1)
                     | Inr res \<Rightarrow>
                         (case minMaxLoc_max res of
                            Inl e \<Rightarrow> (Inl e, tm1)
                          | Inr max_val \<Rightarrow> (Inr (max_val \<ge> thr, max_val), tm1)))))"

text \<open>The state after a sequence of \<open>_load_template\<close> calls, whatever each returns.\<close>

fun load_calls :: "(env \<times> string) list \<Rightarrow> TemplateMatcher \<Rightarrow> TemplateMatcher" where
  "load_calls [] tm = tm"
| "load_calls ((ev, nm) # cs) tm = load_calls cs (snd (TemplateMatcher_load_template ev nm tm))"

section \<open>DetectionManager\<close>

record DetectionManager =
  template_matcher :: TemplateMatcher
  last_frames :: "string \<rightharpoonup> bgr ndarray"

definition DetectionManager_init :: "AppConfig \<Rightarrow> DetectionManager" where
  "DetectionManager_init config =
     \<lparr>template_matcher = TemplateMatcher_init (templates config), last_frames = Map.empty\<rparr>"

text \<open>The truth value Python gives an \<open>Optional[str]\<close>: \<open>None\<close> and the empty string are false.\<close>

definition truthy :: "string option \<Rightarrow> bool" where
  "truthy s = (case s of None \<Rightarrow> False | Some t \<Rightarrow> t \<noteq> [])"

text \<open>\<open>score or 0.0\<close>: an unset score, like a score of zero, reads as zero.\<close>

definition score_or_zero :: "real option \<Rightarrow> real" where
  "score_or_zero score = (case score of None \<Rightarrow> 0 | Some v \<Rightarrow> v)"

text \<open>
  \<open>DetectionManager.evaluate_trade\<close>. The manager is returned as the call leaves it,
  also when the call raises: the frame stored and the templates cached before the
  exception stay.
\<close>

definition DetectionManager_evaluate_trade ::
  "env \<Rightarrow> AppConfig \<Rightarrow> TradeConfig \<Rightarrow> DetectionManager \<Rightarrow> (error + TradeStatus) \<times> DetectionManager" where
  "DetectionManager_evaluate_trade ev config trade dm =
     (case ScreenGrabber_grab (sct_grab ev) (monitor config) (region trade) of
        Inl e \<Rightarrow> (Inl e, dm)
      | Inr frame \<Rightarrow>
          (let dm1 = dm\<lparr>last_frames := (last_frames dm)(trade_name trade \<mapsto> frame)\<rparr>
           in case ColorDetector_red_ratio (COLOR_BGR2HSV ev) (hsv_ranges config) frame of
                Inl e \<Rightarrow> (Inl e, dm1)
              | Inr ratio \<Rightarrow>
                  (let has_red = (ratio \<ge> red_ratio_threshold trade);
                       step1 =
                         (if truthy (start_template trade) \<and>
                             TemplateMatcher_is_configured (template_matcher dm1)
                          then (case TemplateMatcher_match ev frame (the (start_template trade))
                                       (template_matcher dm1) of
                                  (Inl e, tm1) \<Rightarrow> (Inl e, tm1)
                                | (Inr (active, score_val), tm1) \<Rightarrow>
                                    (Inr (Some active, Some score_val), tm1))
                          else (Inr (None, None), template_matcher dm1))
                   in case step1 of
                        (Inl e, tm1) \<Rightarrow> (Inl e, dm1\<lparr>template_matcher := tm1\<rparr>)
                      | (Inr (start_active_v, score1), tm1) \<Rightarrow>
                          (let step2 =
                                 (if truthy (start_gray_template trade) \<and>
                                     TemplateMatcher_is_configured tm1
                                  then (case TemplateMatcher_match ev frame
                                               (the (start_gray_template trade)) tm1 of
                                          (Inl e, tm2) \<Rightarrow> (Inl e, tm2)
                                        | (Inr (disabled, score_val), tm2) \<Rightarrow>
                                            (Inr (Some disabled,
                                                  Some (max (score_or_zero score1) score_val)), tm2))
                                  else (Inr (None, score1), tm1))
                           in case step2 of
                                (Inl e, tm2) \<Rightarrow> (Inl e, dm1\<lparr>template_matcher := tm2\<rparr>)
                              | (Inr (start_disabled_v, score2), tm2) \<Rightarrow>
                                  (Inr \<lparr>name = trade_name trade,
                                        red_ratio = ratio,
                                        has_red_gem = has_red,
                                        start_active = start_active_v,
                                        start_disabled = start_disabled_v,
                                        template_score = score2\<rparr>,
                                   dm1\<lparr>template_matcher := tm2\<rparr>)))))"

text \<open>The status that \<open>evaluate_all\<close> puts in the place of a trade whose evaluation raised.\<close>

definition neutral_status :: "TradeConfig \<Rightarrow> TradeStatus" where
  "neutral_status trade =
     \<lparr>name = trade_name trade, red_ratio = 0, has_red_gem = False,
      start_active = None, start_disabled = None, template_score = None\<rparr>"

text \<open>The loop of \<open>evaluate_all\<close>: the trades still to visit, the statuses so far.\<close>

fun evaluate_loop ::
  "env \<Rightarrow> AppConfig \<Rightarrow> TradeConfig list \<Rightarrow> TradeStatus list \<Rightarrow> DetectionManager
   \<Rightarrow> TradeStatus list \<times> DetectionManager" where
  "evaluate_loop ev config [] statuses dm = (statuses, dm)"
| "evaluate_loop ev config (trade # rest) statuses dm =
     (case DetectionManager_evaluate_trade ev config trade dm of
        (Inr status, dm1) \<Rightarrow> evaluate_loop ev config rest (statuses @ [status]) dm1
      | (Inl exc, dm1) \<Rightarrow> evaluate_loop ev config rest (statuses @ [neutral_status trade]) dm1)"

definition DetectionManager_evaluate_all ::
  "env \<Rightarrow> AppConfig \<Rightarrow> DetectionManager \<Rightarrow> TradeStatus list \<times> DetectionManager" where
  "DetectionManager_evaluate_all ev config dm = evaluate_loop ev config (trades config) [] dm"

section \<open>ClickExecutor\<close>

text \<open>
  clicker.py. Whether \<open>pyautogui\<close> and the win32 modules could be imported is decided
  when the module is loaded. The executor raises \<open>RuntimeError\<close> when the backend it is
  to use is missing. Its own sleeps are at least 0.01 seconds long and are left out.
\<close>

record ClickExecutor =
  click_config :: ClickConfig
  win32_available :: bool
  executor_use_win32 :: bool
  pyautogui_present :: bool

definition ClickExecutor_init :: "ClickConfig \<Rightarrow> bool \<Rightarrow> bool \<Rightarrow> ClickExecutor" where
  "ClickExecutor_init config win32_imported pyautogui_imported =
     \<lparr>click_config = config,
      win32_available = win32_imported,
      executor_use_win32 = (use_win32 config \<and> win32_imported),
      pyautogui_present = pyautogui_imported\<rparr>"

section \<open>AutomationEngine\<close>

text \<open>
  The fields of the engine that the decision loop reads and writes, and \<open>clicked\<close>: the
  points at which a click has been delivered, in order. Timestamps and intervals are
  Python floats; they are taken as reals.
\<close>

record AutomationEngine =
  last_statuses :: "TradeStatus list"
  last_collect_ts :: real
  last_refresh_ts :: real
  clicked :: "Point list"

definition AutomationEngine_init :: AutomationEngine where
  "AutomationEngine_init =
     \<lparr>last_statuses = [], last_collect_ts = 0, last_refresh_ts = 0, clicked = []\<rparr>"

definition ClickExecutor_pyautogui_click ::
  "ClickExecutor \<Rightarrow> Point \<Rightarrow> AutomationEngine \<Rightarrow> error + AutomationEngine" where
  "ClickExecutor_pyautogui_click ce point st =
     (if \<not> pyautogui_present ce then Inl RuntimeError
      else Inr (st\<lparr>clicked := clicked st @ [point]\<rparr>))"

definition ClickExecutor_win32_click ::
  "ClickExecutor \<Rightarrow> Point \<Rightarrow> AutomationEngine \<Rightarrow> error + AutomationEngine" where
  "ClickExecutor_win32_click ce point st =
     (if \<not> win32_available ce then Inl RuntimeError
      else Inr (st\<lparr>clicked := clicked st @ [point]\<rparr>))"

text \<open>\<open>ClickExecutor.click\<close>, called without a pause.\<close>

definition ClickExecutor_click ::
  "ClickExecutor \<Rightarrow> Point \<Rightarrow> AutomationEngine \<Rightarrow> error + AutomationEngine" where
  "ClickExecutor_click ce point st =
     (if executor_use_win32 ce then ClickExecutor_win32_click ce point st
      else ClickExecutor_pyautogui_click ce point st)"

definition AutomationEngine_click ::
  "ClickExecutor \<Rightarrow> Point \<Rightarrow> AutomationEngine \<Rightarrow> error + AutomationEngine" where
  "AutomationEngine_click ce point st = ClickExecutor_click ce point st"

text \<open>\<open>time.sleep\<close> raises \<open>ValueError\<close> on a negative length.\<close>

definition time_sleep :: "real \<Rightarrow> error + unit" where
  "time_sleep secs = (if secs < 0 then Inl ValueError else Inr ())"

text \<open>The loop of \<open>_handle_trades\<close> over \<open>zip(trades, statuses)\<close>.\<close>

fun trades_loop ::
  "AppConfig \<Rightarrow> ClickExecutor \<Rightarrow> (TradeConfig \<times> TradeStatus) list \<Rightarrow> bool \<Rightarrow> AutomationEngine
   \<Rightarrow> error + (bool \<times> AutomationEngine)" where
  "trades_loop config ce [] any_click st = Inr (any_click, st)"
| "trades_loop config ce ((trade, status) # rest) any_click st =
     (if has_red_gem status then
        (if start_active status = None \<or> start_active status = Some True then
           (case AutomationEngine_click ce (start_button trade) st of
              Inl e \<Rightarrow> Inl e
            | Inr st1 \<Rightarrow>
                (case time_sleep (post_click_delay (timing config)) of
                   Inl e \<Rightarrow> Inl e
                 | Inr u \<Rightarrow> trades_loop config ce rest True st1))
         else trades_loop config ce rest any_click st)
      else trades_loop config ce rest any_click st)"

definition AutomationEngine_handle_trades ::
  "AppConfig \<Rightarrow> ClickExecutor \<Rightarrow> TradeStatus list \<Rightarrow> AutomationEngine
   \<Rightarrow> error + (bool \<times> AutomationEngine)" where
  "AutomationEngine_handle_trades config ce statuses st =
     trades_loop config ce (zip (trades config) statuses) False st"

text \<open>\<open>_handle_collect\<close>; \<open>now\<close> is what \<open>time.time()\<close> returns at its first line.\<close>

definition AutomationEngine_handle_collect ::
  "AppConfig \<Rightarrow> ClickExecutor \<Rightarrow> real \<Rightarrow> AutomationEngine \<Rightarrow> error + AutomationEngine" where
  "AutomationEngine_handle_collect config ce now st =
     (let interval = collect_interval (timing config)
      in if interval \<le> 0 then Inr st
         else if now - last_collect_ts st \<ge> interval then
           (case AutomationEngine_click ce (collect_button config) st of
              Inl e \<Rightarrow> Inl e
            | Inr st1 \<Rightarrow>
                (let st2 = st1\<lparr>last_collect_ts := now\<rparr>
                 in case time_sleep (post_click_delay (timing config)) of
                      Inl e \<Rightarrow> Inl e
                    | Inr u \<Rightarrow> Inr st2))
         else Inr st)"

text \<open>\<open>_handle_refresh\<close>; \<open>now\<close> is what \<open>time.time()\<close> returns at its first line.\<close>

definition AutomationEngine_handle_refresh ::
  "AppConfig \<Rightarrow> ClickExecutor \<Rightarrow> real \<Rightarrow> TradeStatus list \<Rightarrow> bool \<Rightarrow> AutomationEngine
   \<Rightarrow> error + AutomationEngine" where
  "AutomationEngine_handle_refresh config ce now statuses click_performed st =
     (let refresh_interval_v = refresh_interval (timing config);
          refresh_due = (refresh_interval_v > 0 \<and> now - last_refresh_ts st \<ge> refresh_interval_v);
          no_red = (\<not> list_ex has_red_gem statuses);
          disabled_flags = map the (filter (\<lambda>d. d \<noteq> None) (map start_disabled statuses));
          all_disabled = (length disabled_flags > 0 \<and> list_all (\<lambda>f. f) disabled_flags)
      in if (no_red \<or> all_disabled \<or> refresh_due) \<and> \<not> click_performed then
           (case AutomationEngine_click ce (refresh_button config) st of
              Inl e \<Rightarrow> Inl e
            | Inr st1 \<Rightarrow>
                (let st2 = st1\<lparr>last_refresh_ts := now\<rparr>
                 in case time_sleep (post_click_delay (timing config)) of
                      Inl e \<Rightarrow> Inl e
                    | Inr u \<Rightarrow> Inr st2))
         else Inr st)"

text \<open>
  One pass of the body of \<open>_run_loop\<close> while the engine runs and is not paused, from the
  evaluation of the trades to the refresh trigger. \<open>now_collect\<close> and \<open>now_refresh\<close>
  are the two readings of the clock.
\<close>

definition AutomationEngine_run_cycle ::
  "env \<Rightarrow> AppConfig \<Rightarrow> ClickExecutor \<Rightarrow> real \<Rightarrow> real \<Rightarrow> DetectionManager \<times> AutomationEngine
   \<Rightarrow> error + (DetectionManager \<times> AutomationEngine)" where
  "AutomationEngine_run_cycle ev config ce now_collect now_refresh s =
     (case s of (dm, st) \<Rightarrow>
        (case DetectionManager_evaluate_all ev config dm of
           (statuses, dm1) \<Rightarrow>
             (let st0 = st\<lparr>last_statuses := statuses\<rparr>
              in case AutomationEngine_handle_trades config ce statuses st0 of
                   Inl e \<Rightarrow> Inl e
                 | Inr (click_performed, st1) \<Rightarrow>
                     (case AutomationEngine_handle_collect config ce now_collect st1 of
                        Inl e \<Rightarrow> Inl e
                      | Inr st2 \<Rightarrow>
                          (case AutomationEngine_handle_refresh config ce now_refresh statuses
                                  click_performed st2 of
                             Inl e \<Rightarrow> Inl e
                           | Inr st3 \<Rightarrow> Inr (dm1, st3))))))"

text \<open>
  The click backend the executor selects is there and the settle delay is not negative:
  then no click and no sleep of a cycle raises.
\<close>

definition sink_ready :: "AppConfig \<Rightarrow> ClickExecutor \<Rightarrow> bool" where
  "sink_ready config ce \<longleftrightarrow>
     (if executor_use_win32 ce then win32_available ce else pyautogui_present ce) \<and>
     0 \<le> post_click_delay (timing config)"

text \<open>Frames and masks for concrete runs: every pixel black.\<close>

definition blank_frame :: "nat \<Rightarrow> nat \<Rightarrow> bgr ndarray" where
  "blank_frame r c = \<lparr>nrows = r, ncols = c, elem = (\<lambda>i j. (0, 0, 0))\<rparr>"

text \<open>The mask that \<open>red_ratio\<close> builds for a frame that has pixels.\<close>

definition range_mask :: "(bgr \<Rightarrow> hsv) \<Rightarrow> HSVRange list \<Rightarrow> bgr ndarray \<Rightarrow> u8 ndarray" where
  "range_mask bgr2hsv ranges frame_bgr =
     mask_ranges (map_nd bgr2hsv frame_bgr) ranges (zeros (nrows frame_bgr) (ncols frame_bgr))"


text \<open>A small environment, template and matcher for concrete runs.\<close>

definition sample_template :: "u8 ndarray" where
  "sample_template = zeros 2 2"

definition sample_env :: env where
  "sample_env =
     \<lparr>COLOR_BGR2HSV = id,
      COLOR_BGR2GRAY = fst,
      TM_CCOEFF_NORMED = (\<lambda>img templ i j. 1),
      sct_grab = (\<lambda>r. Inr \<lparr>nrows = nat (height r), ncols = nat (width r),
                              elem = (\<lambda>i j. (0, 0, 0, 255))\<rparr>),
      path_exists = (\<lambda>p. True),
      imread = (\<lambda>p. Some sample_template)\<rparr>"

definition sample_config :: TemplateConfig where
  "sample_config = \<lparr>template_name = ''start'', path = ''start.png'', threshold = 4 / 5\<rparr>"

definition sample_matcher :: TemplateMatcher where
  "sample_matcher = TemplateMatcher_init [(''start'', sample_config)]"

text \<open>
  What \<open>evaluate_all\<close> appends for a trade, and the manager as the loop of
  \<open>evaluate_all\<close> has left it when it reaches the trade at an index.
\<close>

definition status_or_neutral ::
  "env \<Rightarrow> AppConfig \<Rightarrow> TradeConfig \<Rightarrow> DetectionManager \<Rightarrow> TradeStatus" where
  "status_or_neutral ev config trade dm =
     (case fst (DetectionManager_evaluate_trade ev config trade dm) of
        Inl exc \<Rightarrow> neutral_status trade
      | Inr status \<Rightarrow> status)"

definition manager_before ::
  "env \<Rightarrow> AppConfig \<Rightarrow> DetectionManager \<Rightarrow> nat \<Rightarrow> DetectionManager" where
  "manager_before ev config dm i = snd (evaluate_loop ev config (take i (trades config)) [] dm)"

text \<open>A configuration with two trades for concrete runs, and an environment without readable template files.\<close>

definition sample_trade :: TradeConfig where
  "sample_trade =
     \<lparr>trade_name = ''t1'',
      region = \<lparr>left = 0, top_r = 0, width = 2, height = 2\<rparr>,
      start_button = \<lparr>x = 5, y = 5\<rparr>,
      start_template = Some ''start'',
      start_gray_template = None,
      red_ratio_threshold = 1 / 100\<rparr>"

definition sample_app :: AppConfig where
  "sample_app =
     \<lparr>monitor = \<lparr>left = 0, top_r = 0, width = 100, height = 100\<rparr>,
      trades = [sample_trade, sample_trade\<lparr>trade_name := ''t2'', start_template := None\<rparr>],
      collect_button = \<lparr>x = 10, y = 10\<rparr>,
      refresh_button = \<lparr>x = 20, y = 20\<rparr>,
      hsv_ranges = [\<lparr>lower = (0, 0, 0), upper = (10, 255, 255)\<rparr>],
      templates = [(''start'', sample_config)],
      timing = \<lparr>timing_cycle_delay = 1 / 2, collect_interval = 300, refresh_interval = 60,
                post_click_delay = 3 / 20\<rparr>,
      clicks = \<lparr>use_win32 = False, win32_press_duration = 40, move_cursor_back = True\<rparr>,
      cycle_delay = 1 / 2\<rparr>"

definition broken_files_env :: env where
  "broken_files_env = sample_env\<lparr>imread := (\<lambda>p. None)\<rparr>"

text \<open>
  The start buttons that \<open>_handle_trades\<close> clicks for a list of trades paired with their
  statuses, in order.
\<close>

definition start_clicks :: "(TradeConfig \<times> TradeStatus) list \<Rightarrow> Point list" where
  "start_clicks zs =
     map (\<lambda>(trade, status). start_button trade)
       (filter (\<lambda>(trade, status). has_red_gem status \<and>
                  (start_active status = None \<or> start_active status = Some True)) zs)"

text \<open>
  An executor on \<open>pyautogui\<close>, configurations with one trade and with a refresh interval
  of zero, two statuses, and an environment whose template file holds a template that is
  not of one colour: on the black frames of the sample screen, which have no variance,
  OpenCV scores such a template 0 at every offset (and a template of one colour, like
  \<open>sample_template\<close>, 1).
\<close>

definition sample_executor :: ClickExecutor where
  "sample_executor = ClickExecutor_init (clicks sample_app) False True"

definition one_trade_app :: AppConfig where
  "one_trade_app = sample_app\<lparr>trades := [sample_trade]\<rparr>"

definition zero_refresh_app :: AppConfig where
  "zero_refresh_app = one_trade_app\<lparr>timing := (timing one_trade_app)\<lparr>refresh_interval := 0\<rparr>\<rparr>"



definition ready_status :: TradeStatus where
  "ready_status =
     \<lparr>name = ''t1'', red_ratio = 1, has_red_gem = True, start_active = None,
      start_disabled = None, template_score = None\<rparr>"

definition inactive_status :: TradeStatus where
  "inactive_status =
     \<lparr>name = ''t1'', red_ratio = 1, has_red_gem = True, start_active = Some False,
      start_disabled = None, template_score = Some 0\<rparr>"

section \<open>Properties of ScreenGrabber\<close>

lemma bounded_region_size:
  "1 \<le> width (ScreenGrabber_bounded_region mon reg) \<and>
   1 \<le> height (ScreenGrabber_bounded_region mon reg)"
  by (simp add: ScreenGrabber_bounded_region_def Let_def)

lemma bounded_region_origin:
  "left mon \<le> left (ScreenGrabber_bounded_region mon reg) \<and>
   top_r mon \<le> top_r (ScreenGrabber_bounded_region mon reg)"
  by (simp add: ScreenGrabber_bounded_region_def Let_def)

text \<open>
  C4. The clamped region always has width and height at least 1 and never starts left of
  or above the monitor, but it is not always inside the monitor: for a monitor of
  100 by 100 at the origin and a requested region of 10 by 10 at x = 200, the result is
  the 1 by 10 region at x = 200, which lies to the right of the monitor.
\<close>

theorem bounded_region_outside_monitor:
  "ScreenGrabber_bounded_region
     \<lparr>left = 0, top_r = 0, width = 100, height = 100\<rparr>
     \<lparr>left = 200, top_r = 0, width = 10, height = 10\<rparr>
   = \<lparr>left = 200, top_r = 0, width = 1, height = 10\<rparr> \<and>
   \<not> within_monitor \<lparr>left = 0, top_r = 0, width = 100, height = 100\<rparr>
       (ScreenGrabber_bounded_region
          \<lparr>left = 0, top_r = 0, width = 100, height = 100\<rparr>
          \<lparr>left = 200, top_r = 0, width = 10, height = 10\<rparr>)"
  by (simp add: ScreenGrabber_bounded_region_def within_monitor_def Let_def)

section \<open>Properties of ColorDetector\<close>

lemma positions_length: "length (positions a) = size_nd a"
  by (simp add: positions_def size_nd_def)

lemma count_nonzero_le: "count_nonzero m \<le> size_nd m"
  unfolding count_nonzero_def positions_length[symmetric] by (rule length_filter_le)

lemma mask_ranges_shape:
  "nrows (mask_ranges src rs m) = nrows m \<and> ncols (mask_ranges src rs m) = ncols m"
  by (induction rs arbitrary: m) (simp_all add: bitwise_or_def)

lemma mask_ranges_size: "size_nd (mask_ranges src rs m) = size_nd m"
  by (simp add: size_nd_def mask_ranges_shape)

lemma range_mask_size: "size_nd (range_mask cv rs frame) = nrows frame * ncols frame"
  by (simp add: range_mask_def mask_ranges_shape size_nd_def zeros_def)

lemma red_ratio_nonempty:
  assumes "0 < nrows frame" "0 < ncols frame"
  shows "ColorDetector_red_ratio cv rs frame =
           Inr (real (count_nonzero (range_mask cv rs frame)) / real (nrows frame * ncols frame))"
proof -
  have "size_nd (range_mask cv rs frame) \<noteq> 0"
    using assms by (simp add: range_mask_size)
  then show ?thesis
    using assms
    by (simp add: ColorDetector_red_ratio_def cvtColor_def size_nd_def map_nd_def Let_def
        range_mask_def mask_ranges_shape zeros_def)
qed

lemma red_ratio_empty:
  assumes "nrows frame = 0 \<or> ncols frame = 0"
  shows "ColorDetector_red_ratio cv rs frame = Inl CvError"
  using assms by (auto simp: ColorDetector_red_ratio_def cvtColor_def size_nd_def)

text \<open>
  C3, as stated, fails on an image without pixels: \<open>red_ratio\<close> does not return 0.0
  there, the colour conversion of its first line raises.
\<close>

theorem red_ratio_empty_image_raises:
  "ColorDetector_red_ratio id [] (blank_frame 0 0) = Inl CvError \<and>
   ColorDetector_red_ratio id [] (blank_frame 0 0) \<noteq> Inr 0"
  by (simp add: red_ratio_empty blank_frame_def)

text \<open>
  C3, amended. For every image with at least one pixel \<open>red_ratio\<close> returns a ratio
  between 0 and 1; for an image without pixels it raises.
\<close>

theorem red_ratio_range:
  "if nrows frame = 0 \<or> ncols frame = 0
   then ColorDetector_red_ratio cv rs frame = Inl CvError
   else (\<exists>r. ColorDetector_red_ratio cv rs frame = Inr r \<and> 0 \<le> r \<and> r \<le> 1)"
proof (cases "nrows frame = 0 \<or> ncols frame = 0")
  case True
  then show ?thesis by (simp add: red_ratio_empty)
next
  case False
  let ?m = "range_mask cv rs frame"
  have pos: "0 < size_nd ?m"
    using False by (simp add: range_mask_size)
  have "real (count_nonzero ?m) / real (size_nd ?m) \<le> 1"
    using count_nonzero_le[of ?m] pos by simp
  then show ?thesis
    using False by (simp add: red_ratio_nonempty range_mask_size)
qed

theorem red_ratio_range_witness:
  "\<exists>r. ColorDetector_red_ratio id [] (blank_frame 1 1) = Inr r \<and> 0 \<le> r \<and> r \<le> 1"
  using red_ratio_range [of "blank_frame 1 1" id "[]"] by (simp add: blank_frame_def)


lemma positions_mask_ranges: "positions (mask_ranges src rs m) = positions m"
  by (simp add: positions_def mask_ranges_shape)











section \<open>Properties of TemplateMatcher\<close>

lemma load_template_hit:
  assumes "map_of (matcher_templates tm) nm = Some config" and "cache tm nm = Some entry"
  shows "TemplateMatcher_load_template ev nm tm = (Inr entry, tm)"
  using assms by (simp add: TemplateMatcher_load_template_def)

lemma load_template_keeps:
  "matcher_templates (snd (TemplateMatcher_load_template ev nm' tm)) = matcher_templates tm \<and>
   (cache tm nm = Some entry \<longrightarrow> cache (snd (TemplateMatcher_load_template ev nm' tm)) nm = Some entry)"
  by (auto simp: TemplateMatcher_load_template_def split: option.splits)

lemma load_calls_keeps:
  "matcher_templates (load_calls cs tm) = matcher_templates tm \<and>
   (cache tm nm = Some entry \<longrightarrow> cache (load_calls cs tm) nm = Some entry)"
proof (induction cs arbitrary: tm)
  case Nil
  show ?case by simp
next
  case (Cons c cs)
  obtain ev nm' where c: "c = (ev, nm')" by (cases c)
  show ?case
    using Cons.IH [of "snd (TemplateMatcher_load_template ev nm' tm)"]
      load_template_keeps [of ev nm' tm nm entry]
    by (simp add: c)
qed

lemma load_template_fails:
  assumes "map_of (matcher_templates tm) nm = Some config" and "cache tm nm = None"
    and "\<not> path_exists ev (path config) \<or> imread ev (path config) = None"
  shows "TemplateMatcher_load_template ev nm tm =
           (Inl (if \<not> path_exists ev (path config) then FileNotFoundError else RuntimeError), tm)"
  using assms by (auto simp: TemplateMatcher_load_template_def)

lemma load_template_loads:
  assumes "map_of (matcher_templates tm) nm = Some config" and "cache tm nm = None"
    and "path_exists ev (path config)" and "imread ev (path config) = Some img"
  shows "TemplateMatcher_load_template ev nm tm =
           (Inr (img, threshold config), tm\<lparr>cache := (cache tm)(nm \<mapsto> (img, threshold config))\<rparr>)"
  using assms by (simp add: TemplateMatcher_load_template_def)

lemma match_load_error:
  assumes "TemplateMatcher_load_template ev nm tm = (Inl e, tm1)"
  shows "TemplateMatcher_match ev frame nm tm = (Inl e, tm1)"
  using assms by (simp add: TemplateMatcher_match_def)

text \<open>
  C6. For a configured template that is not cached yet: if its file is missing or cannot
  be decoded, \<open>_load_template\<close> raises, the exception comes out of \<open>match\<close>, the matcher
  and its cache are unchanged, and a later call loads the file once it is readable; if the
  file loads, the decoded image and the threshold are returned and cached, and after any
  further sequence of load calls a call for that name returns exactly that entry without
  looking at the file system.
\<close>

theorem load_template_cache:
  assumes "map_of (matcher_templates tm) nm = Some config" and "cache tm nm = None"
  shows "(\<not> path_exists ev (path config) \<or> imread ev (path config) = None \<longrightarrow>
            (\<exists>e. TemplateMatcher_load_template ev nm tm = (Inl e, tm) \<and>
                 TemplateMatcher_match ev frame nm tm = (Inl e, tm)) \<and>
            (\<forall>ev2 img. path_exists ev2 (path config) \<and> imread ev2 (path config) = Some img \<longrightarrow>
               fst (TemplateMatcher_load_template ev2 nm
                      (snd (TemplateMatcher_load_template ev nm tm))) = Inr (img, threshold config)))
       \<and> (\<forall>img. path_exists ev (path config) \<and> imread ev (path config) = Some img \<longrightarrow>
            TemplateMatcher_load_template ev nm tm =
              (Inr (img, threshold config),
               tm\<lparr>cache := (cache tm)(nm \<mapsto> (img, threshold config))\<rparr>) \<and>
            (\<forall>calls ev2.
               TemplateMatcher_load_template ev2 nm
                 (load_calls calls (snd (TemplateMatcher_load_template ev nm tm))) =
               (Inr (img, threshold config),
                load_calls calls (snd (TemplateMatcher_load_template ev nm tm)))))"
proof (intro conjI impI allI)
  assume bad: "\<not> path_exists ev (path config) \<or> imread ev (path config) = None"
  let ?e = "if \<not> path_exists ev (path config) then FileNotFoundError else RuntimeError"
  have l: "TemplateMatcher_load_template ev nm tm = (Inl ?e, tm)"
    using assms bad by (rule load_template_fails)
  then show "\<exists>e. TemplateMatcher_load_template ev nm tm = (Inl e, tm) \<and>
                 TemplateMatcher_match ev frame nm tm = (Inl e, tm)"
    using match_load_error [OF l] by blast
  fix ev2 :: env and img
  assume "path_exists ev2 (path config) \<and> imread ev2 (path config) = Some img"
  then show "fst (TemplateMatcher_load_template ev2 nm
                (snd (TemplateMatcher_load_template ev nm tm))) = Inr (img, threshold config)"
    using assms by (simp add: l load_template_loads)
next
  fix img
  assume ok: "path_exists ev (path config) \<and> imread ev (path config) = Some img"
  then show l: "TemplateMatcher_load_template ev nm tm =
              (Inr (img, threshold config),
               tm\<lparr>cache := (cache tm)(nm \<mapsto> (img, threshold config))\<rparr>)"
    using assms by (simp add: load_template_loads)
  fix calls and ev2 :: env
  let ?tm1 = "snd (TemplateMatcher_load_template ev nm tm)"
  have "cache ?tm1 nm = Some (img, threshold config)" by (simp add: l)
  with load_calls_keeps [of calls ?tm1 nm "(img, threshold config)"]
  have "cache (load_calls calls ?tm1) nm = Some (img, threshold config)"
    and "matcher_templates (load_calls calls ?tm1) = matcher_templates tm"
    by (simp_all add: l)
  then show "TemplateMatcher_load_template ev2 nm (load_calls calls ?tm1) =
               (Inr (img, threshold config), load_calls calls ?tm1)"
    using assms(1) by (simp add: load_template_hit)
qed

lemma set_positions: "set (positions a) = {..<nrows a} \<times> {..<ncols a}"
  by (auto simp: positions_def)

lemma minMaxLoc_max_Max:
  assumes "0 < nrows res" and "0 < ncols res"
  shows "minMaxLoc_max res = Inr (Max ((\<lambda>(i, j). elem res i j) ` ({..<nrows res} \<times> {..<ncols res})))"
proof -
  let ?vs = "map (\<lambda>(i, j). elem res i j) (positions res)"
  have "length ?vs = nrows res * ncols res"
    by (simp add: positions_length size_nd_def)
  with assms have "?vs \<noteq> []" by auto
  then obtain v vs where vs: "?vs = v # vs" by (cases ?vs) auto
  have "set ?vs = (\<lambda>(i, j). elem res i j) ` ({..<nrows res} \<times> {..<ncols res})"
    by (simp add: set_positions)
  then have "Max ((\<lambda>(i, j). elem res i j) ` ({..<nrows res} \<times> {..<ncols res})) = fold max vs v"
    using Max.set_eq_fold [of v vs] vs by simp
  then show ?thesis
    by (simp add: minMaxLoc_max_def vs)
qed

text \<open>
  C5, amended. For every frame with at least one pixel and every template that loads: if the frame
  has fewer rows or fewer columns than the template, \<open>match\<close> returns (False, 0.0) and
  raises nothing; otherwise it returns the largest correlation score over all the offsets
  at which the template fits, and True exactly when that score reaches the threshold of
  the template.
\<close>

theorem match_result:
  assumes "TemplateMatcher_load_template ev nm tm = (Inr (template, thr), tm1)"
    and "0 < nrows frame" and "0 < ncols frame"
  shows "TemplateMatcher_match ev frame nm tm =
           (if nrows frame < nrows template \<or> ncols frame < ncols template
            then (Inr (False, 0), tm1)
            else (let best = Max ((\<lambda>(i, j). TM_CCOEFF_NORMED ev
                                      (map_nd (COLOR_BGR2GRAY ev) frame) template i j) `
                                  ({..nrows frame - nrows template} \<times>
                                   {..ncols frame - ncols template}))
                  in (Inr (thr \<le> best, best), tm1)))"
proof (cases "nrows frame < nrows template \<or> ncols frame < ncols template")
  case True
  then show ?thesis
    using assms by (auto simp: TemplateMatcher_match_def cvtColor_def size_nd_def map_nd_def)
next
  case False
  let ?g = "map_nd (COLOR_BGR2GRAY ev) frame"
  let ?res = "\<lparr>nrows = nrows frame - nrows template + 1,
               ncols = ncols frame - ncols template + 1,
               elem = TM_CCOEFF_NORMED ev ?g template\<rparr>"
  have mt: "matchTemplate ev ?g template = Inr ?res"
    using False by (simp add: matchTemplate_def map_nd_def)
  have mm: "minMaxLoc_max ?res =
      Inr (Max ((\<lambda>(i, j). TM_CCOEFF_NORMED ev ?g template i j) `
             ({..nrows frame - nrows template} \<times> {..ncols frame - ncols template})))"
    using minMaxLoc_max_Max [of ?res] by (simp add: lessThan_Suc_atMost)
  have cv: "cvtColor (COLOR_BGR2GRAY ev) frame = Inr ?g"
    using assms by (simp add: cvtColor_def size_nd_def)
  have dims: "nrows ?g = nrows frame" "ncols ?g = ncols frame" by (simp_all add: map_nd_def)
  show ?thesis
    using False assms(1) cv mt mm by (simp add: TemplateMatcher_match_def dims Let_def)
qed

text \<open>
  C5, as stated, fails on a frame without pixels: it is smaller than the template that
  loads, and \<open>match\<close> does not return (False, 0.0) but raises, since the conversion to
  grayscale comes before the comparison of the sizes.
\<close>

theorem match_empty_frame_raises:
  "fst (TemplateMatcher_load_template sample_env ''start'' sample_matcher) =
     Inr (sample_template, 4 / 5) \<and>
   nrows (blank_frame 0 0) < nrows sample_template \<and>
   fst (TemplateMatcher_match sample_env (blank_frame 0 0) ''start'' sample_matcher) =
     Inl CvError"
  by (simp add: TemplateMatcher_match_def TemplateMatcher_load_template_def sample_matcher_def
      TemplateMatcher_init_def sample_env_def sample_config_def sample_template_def zeros_def
      blank_frame_def cvtColor_def size_nd_def)

theorem load_template_cache_witness:
  "(\<exists>e. TemplateMatcher_load_template (sample_env\<lparr>imread := (\<lambda>p. None)\<rparr>) ''start'' sample_matcher
          = (Inl e, sample_matcher) \<and>
        TemplateMatcher_match (sample_env\<lparr>imread := (\<lambda>p. None)\<rparr>) (blank_frame 1 1) ''start''
          sample_matcher = (Inl e, sample_matcher)) \<and>
   TemplateMatcher_load_template sample_env ''start'' sample_matcher =
     (Inr (sample_template, 4 / 5),
      sample_matcher\<lparr>cache := (cache sample_matcher)(''start'' \<mapsto> (sample_template, 4 / 5))\<rparr>) \<and>
   TemplateMatcher_load_template (sample_env\<lparr>path_exists := (\<lambda>p. False)\<rparr>) ''start''
     (load_calls [(sample_env, ''other'')]
        (snd (TemplateMatcher_load_template sample_env ''start'' sample_matcher))) =
     (Inr (sample_template, 4 / 5),
      load_calls [(sample_env, ''other'')]
        (snd (TemplateMatcher_load_template sample_env ''start'' sample_matcher)))"
proof -
  have c: "map_of (matcher_templates sample_matcher) ''start'' = Some sample_config"
    and n: "cache sample_matcher ''start'' = None"
    by (simp_all add: sample_matcher_def TemplateMatcher_init_def)
  have bad: "imread (sample_env\<lparr>imread := (\<lambda>p. None)\<rparr>) (path sample_config) = None"
    by simp
  have ok: "path_exists sample_env (path sample_config) \<and>
            imread sample_env (path sample_config) = Some sample_template"
    by (simp add: sample_env_def)
  have t: "threshold sample_config = 4 / 5" by (simp add: sample_config_def)
  from load_template_cache [OF c n, of "sample_env\<lparr>imread := (\<lambda>p. None)\<rparr>" "blank_frame 1 1"] bad
  have 1: "\<exists>e. TemplateMatcher_load_template (sample_env\<lparr>imread := (\<lambda>p. None)\<rparr>) ''start'' sample_matcher
          = (Inl e, sample_matcher) \<and>
        TemplateMatcher_match (sample_env\<lparr>imread := (\<lambda>p. None)\<rparr>) (blank_frame 1 1) ''start''
          sample_matcher = (Inl e, sample_matcher)"
    by blast
  from load_template_cache [OF c n, of sample_env "blank_frame 1 1"] ok
  have 2: "TemplateMatcher_load_template sample_env ''start'' sample_matcher =
     (Inr (sample_template, threshold sample_config),
      sample_matcher\<lparr>cache := (cache sample_matcher)(''start'' \<mapsto> (sample_template, threshold sample_config))\<rparr>)"
   and 3: "\<And>calls ev2. TemplateMatcher_load_template ev2 ''start''
                 (load_calls calls (snd (TemplateMatcher_load_template sample_env ''start'' sample_matcher))) =
               (Inr (sample_template, threshold sample_config),
                load_calls calls (snd (TemplateMatcher_load_template sample_env ''start'' sample_matcher)))"
    by blast+
  show ?thesis
    using 1 2 3 [of "sample_env\<lparr>path_exists := (\<lambda>p. False)\<rparr>" "[(sample_env, ''other'')]"]
    unfolding t by blast
qed

theorem match_result_witness:
  "TemplateMatcher_match sample_env (blank_frame 1 1) ''start'' sample_matcher =
     (Inr (False, 0), sample_matcher\<lparr>cache := (cache sample_matcher)(''start'' \<mapsto> (sample_template, 4 / 5))\<rparr>) \<and>
   TemplateMatcher_match sample_env (blank_frame 3 3) ''start'' sample_matcher =
     (Inr (True, 1), sample_matcher\<lparr>cache := (cache sample_matcher)(''start'' \<mapsto> (sample_template, 4 / 5))\<rparr>)"
proof -
  let ?tm1 = "sample_matcher\<lparr>cache := (cache sample_matcher)(''start'' \<mapsto> (sample_template, 4 / 5))\<rparr>"
  have l: "TemplateMatcher_load_template sample_env ''start'' sample_matcher =
             (Inr (sample_template, 4 / 5), ?tm1)"
    by (simp add: TemplateMatcher_load_template_def sample_matcher_def TemplateMatcher_init_def
        sample_env_def sample_config_def)
  have "TemplateMatcher_match sample_env (blank_frame 1 1) ''start'' sample_matcher =
          (Inr (False, 0), ?tm1)"
    using match_result [OF l, of "blank_frame 1 1"]
    by (simp add: blank_frame_def sample_template_def zeros_def)
  moreover have "TemplateMatcher_match sample_env (blank_frame 3 3) ''start'' sample_matcher =
          (Inr (True, 1), ?tm1)"
    using match_result [OF l, of "blank_frame 3 3"]
    by (simp add: blank_frame_def sample_template_def zeros_def sample_env_def)
  ultimately show ?thesis by simp
qed

section \<open>Properties of DetectionManager\<close>

lemma evaluate_trade_name:
  assumes "DetectionManager_evaluate_trade ev config trade dm = (Inr status, dm1)"
  shows "name status = trade_name trade"
  using assms
  by (auto simp: DetectionManager_evaluate_trade_def Let_def split: sum.splits prod.splits if_splits)

lemma status_or_neutral_name: "name (status_or_neutral ev config trade dm) = trade_name trade"
proof (cases "DetectionManager_evaluate_trade ev config trade dm")
  case (Pair r dm1)
  then show ?thesis
    by (cases r) (auto simp: status_or_neutral_def neutral_status_def dest: evaluate_trade_name)
qed

lemma evaluate_loop_step:
  "evaluate_loop ev config (trade # rest) statuses dm =
     evaluate_loop ev config rest (statuses @ [status_or_neutral ev config trade dm])
       (snd (DetectionManager_evaluate_trade ev config trade dm))"
  by (cases "DetectionManager_evaluate_trade ev config trade dm")
     (auto simp: status_or_neutral_def split: sum.splits)

lemma evaluate_loop_acc:
  "evaluate_loop ev config ts acc dm =
     (acc @ fst (evaluate_loop ev config ts [] dm), snd (evaluate_loop ev config ts [] dm))"
proof (induction ts arbitrary: acc dm)
  case Nil
  show ?case by simp
next
  case (Cons t ts)
  show ?case
    unfolding evaluate_loop_step
    by (subst Cons.IH, subst (2 3) Cons.IH) simp
qed

lemma evaluate_loop_Cons:
  "evaluate_loop ev config (t # ts) [] dm =
     (status_or_neutral ev config t dm #
        fst (evaluate_loop ev config ts [] (snd (DetectionManager_evaluate_trade ev config t dm))),
      snd (evaluate_loop ev config ts [] (snd (DetectionManager_evaluate_trade ev config t dm))))"
  unfolding evaluate_loop_step by (subst evaluate_loop_acc) simp

lemma evaluate_loop_length: "length (fst (evaluate_loop ev config ts [] dm)) = length ts"
  by (induction ts arbitrary: dm) (simp_all add: evaluate_loop_Cons del: evaluate_loop.simps(2))

lemma evaluate_loop_nth:
  "i < length ts \<Longrightarrow>
   fst (evaluate_loop ev config ts [] dm) ! i =
     status_or_neutral ev config (ts ! i) (snd (evaluate_loop ev config (take i ts) [] dm))"
proof (induction ts arbitrary: dm i)
  case Nil
  then show ?case by simp
next
  case (Cons t ts)
  show ?case
  proof (cases i)
    case 0
    then show ?thesis by (simp add: evaluate_loop_Cons del: evaluate_loop.simps(2))
  next
    case (Suc k)
    with Cons.prems have "k < length ts" by simp
    from Cons.IH [OF this] Suc show ?thesis
      by (simp add: evaluate_loop_Cons del: evaluate_loop.simps(2))
  qed
qed

text \<open>
  C7. \<open>evaluate_all\<close> returns a list and raises nothing. The list has one status for
  each configured trade, in the order of the configuration and under the name of the trade;
  the status of a trade is what \<open>evaluate_trade\<close> returns for it, run on the manager as
  the trades before it have left it, and the neutral status when \<open>evaluate_trade\<close> raises,
  whatever the exception.
\<close>

theorem evaluate_all_statuses:
  "length (fst (DetectionManager_evaluate_all ev config dm)) = length (trades config) \<and>
   map name (fst (DetectionManager_evaluate_all ev config dm)) = map trade_name (trades config) \<and>
   (\<forall>i<length (trades config).
      fst (DetectionManager_evaluate_all ev config dm) ! i =
        (case fst (DetectionManager_evaluate_trade ev config (trades config ! i)
                     (manager_before ev config dm i)) of
           Inl exc \<Rightarrow> neutral_status (trades config ! i)
         | Inr status \<Rightarrow> status))"
proof -
  let ?ss = "fst (DetectionManager_evaluate_all ev config dm)"
  have len: "length ?ss = length (trades config)"
    by (simp add: DetectionManager_evaluate_all_def evaluate_loop_length)
  have nth: "?ss ! i = status_or_neutral ev config (trades config ! i) (manager_before ev config dm i)"
    if "i < length (trades config)" for i
    using that by (simp add: DetectionManager_evaluate_all_def evaluate_loop_nth manager_before_def)
  have "map name ?ss = map trade_name (trades config)"
    by (rule nth_equalityI) (simp_all add: len nth status_or_neutral_name)
  with len nth show ?thesis
    by (simp add: status_or_neutral_def)
qed

lemma sample_t1_fails:
  "fst (DetectionManager_evaluate_trade broken_files_env sample_app sample_trade
          (DetectionManager_init sample_app)) = Inl RuntimeError"
  by (simp add: DetectionManager_evaluate_trade_def broken_files_env_def sample_env_def
      sample_app_def sample_trade_def DetectionManager_init_def TemplateMatcher_init_def
      ScreenGrabber_grab_def ScreenGrabber_bounded_region_def cvtColor_def size_nd_def map_nd_def
      ColorDetector_red_ratio_def Let_def zeros_def truthy_def TemplateMatcher_is_configured_def
      TemplateMatcher_match_def TemplateMatcher_load_template_def sample_config_def
      bitwise_or_def)

lemma sample_t2_succeeds:
  "fst (DetectionManager_evaluate_trade broken_files_env sample_app
          (sample_trade\<lparr>trade_name := ''t2'', start_template := None\<rparr>) dm) =
     Inr \<lparr>name = ''t2'', red_ratio = 1, has_red_gem = True, start_active = None,
          start_disabled = None, template_score = None\<rparr>"
  by (simp add: DetectionManager_evaluate_trade_def broken_files_env_def sample_env_def
      sample_app_def sample_trade_def 
      ScreenGrabber_grab_def ScreenGrabber_bounded_region_def cvtColor_def size_nd_def map_nd_def
      ColorDetector_red_ratio_def Let_def zeros_def truthy_def 
      bitwise_or_def count_nonzero_def positions_def inRange_def in_bounds_def COLOR_BGRA2BGR_def)

theorem evaluate_all_statuses_witness:
  "fst (DetectionManager_evaluate_all broken_files_env sample_app (DetectionManager_init sample_app))
     = [neutral_status sample_trade,
        \<lparr>name = ''t2'', red_ratio = 1, has_red_gem = True, start_active = None,
          start_disabled = None, template_score = None\<rparr>]"
proof -
  let ?ss = "fst (DetectionManager_evaluate_all broken_files_env sample_app (DetectionManager_init sample_app))"
  have tr: "trades sample_app = [sample_trade, sample_trade\<lparr>trade_name := ''t2'', start_template := None\<rparr>]"
    by (simp add: sample_app_def)
  have mb: "manager_before broken_files_env sample_app (DetectionManager_init sample_app) 0
              = DetectionManager_init sample_app"
    by (simp add: manager_before_def)
  from evaluate_all_statuses [of broken_files_env sample_app "DetectionManager_init sample_app"]
  have len: "length ?ss = 2"
    and nth: "\<And>i. i < 2 \<Longrightarrow> ?ss ! i =
        (case fst (DetectionManager_evaluate_trade broken_files_env sample_app (trades sample_app ! i)
                     (manager_before broken_files_env sample_app (DetectionManager_init sample_app) i)) of
           Inl exc \<Rightarrow> neutral_status (trades sample_app ! i)
         | Inr status \<Rightarrow> status)"
    by (simp_all add: tr)
  have 0: "?ss ! 0 = neutral_status sample_trade"
    using nth [of 0] by (simp add: mb sample_t1_fails tr)
  have 1: "?ss ! 1 = \<lparr>name = ''t2'', red_ratio = 1, has_red_gem = True, start_active = None,
          start_disabled = None, template_score = None\<rparr>"
    using nth [of 1] by (simp add: sample_t2_succeeds tr)
  show ?thesis
    using len 0 1 by (auto simp: list_eq_iff_nth_eq less_Suc_eq numeral_2_eq_2)
qed

section \<open>Properties of AutomationEngine\<close>

lemma click_ready:
  assumes "sink_ready config ce"
  shows "AutomationEngine_click ce p st = Inr (st\<lparr>clicked := clicked st @ [p]\<rparr>)"
  using assms
  by (simp add: sink_ready_def AutomationEngine_click_def ClickExecutor_click_def
      ClickExecutor_win32_click_def ClickExecutor_pyautogui_click_def split: if_splits)

lemma sleep_ready:
  assumes "sink_ready config ce"
  shows "time_sleep (post_click_delay (timing config)) = Inr ()"
  using assms by (simp add: sink_ready_def time_sleep_def)

lemma trades_loop_ready:
  assumes "sink_ready config ce"
  shows "trades_loop config ce zs any_click st =
           Inr (any_click \<or> start_clicks zs \<noteq> [], st\<lparr>clicked := clicked st @ start_clicks zs\<rparr>)"
proof (induction zs arbitrary: any_click st)
  case Nil
  show ?case by (simp add: start_clicks_def)
next
  case (Cons z zs)
  obtain trade status where z: "z = (trade, status)" by (cases z)
  show ?case
    by (simp add: z Cons.IH click_ready [OF assms] sleep_ready [OF assms] start_clicks_def)
qed

lemma handle_trades_ready:
  assumes "sink_ready config ce"
  shows "AutomationEngine_handle_trades config ce statuses st =
           Inr (start_clicks (zip (trades config) statuses) \<noteq> [],
                st\<lparr>clicked := clicked st @ start_clicks (zip (trades config) statuses)\<rparr>)"
  by (simp add: AutomationEngine_handle_trades_def trades_loop_ready [OF assms])

lemma handle_collect_ready:
  assumes "sink_ready config ce"
  shows "AutomationEngine_handle_collect config ce now st =
           Inr (if 0 < collect_interval (timing config) \<and>
                   collect_interval (timing config) \<le> now - last_collect_ts st
                then st\<lparr>clicked := clicked st @ [collect_button config], last_collect_ts := now\<rparr>
                else st)"
  by (simp add: AutomationEngine_handle_collect_def Let_def click_ready [OF assms]
      sleep_ready [OF assms])

lemma flags_nonempty:
  "0 < length (map the (filter (\<lambda>d. d \<noteq> None) (map start_disabled statuses))) \<longleftrightarrow>
   (\<exists>s\<in>set statuses. start_disabled s \<noteq> None)"
proof (induction statuses)
  case Nil
  show ?case by simp
next
  case (Cons s ss)
  then show ?case by (cases "start_disabled s") simp_all
qed

lemma flags_all:
  "list_all (\<lambda>f. f) (map the (filter (\<lambda>d. d \<noteq> None) (map start_disabled statuses))) \<longleftrightarrow>
   (\<forall>s\<in>set statuses. start_disabled s \<noteq> None \<longrightarrow> start_disabled s = Some True)"
proof (induction statuses)
  case Nil
  show ?case by simp
next
  case (Cons s ss)
  then show ?case by (cases "start_disabled s") simp_all
qed

lemma handle_refresh_ready:
  assumes "sink_ready config ce"
  shows "AutomationEngine_handle_refresh config ce now statuses click_performed st =
           Inr (if \<not> click_performed \<and>
                   ((\<forall>s\<in>set statuses. \<not> has_red_gem s) \<or>
                    ((\<exists>s\<in>set statuses. start_disabled s \<noteq> None) \<and>
                     (\<forall>s\<in>set statuses. start_disabled s \<noteq> None \<longrightarrow> start_disabled s = Some True)) \<or>
                    (0 < refresh_interval (timing config) \<and>
                     refresh_interval (timing config) \<le> now - last_refresh_ts st))
                then st\<lparr>clicked := clicked st @ [refresh_button config], last_refresh_ts := now\<rparr>
                else st)"
proof -
  let ?flags = "map the (filter (\<lambda>d. d \<noteq> None) (map start_disabled statuses))"
  let ?due = "refresh_interval (timing config) > 0 \<and>
              now - last_refresh_ts st \<ge> refresh_interval (timing config)"
  let ?code = "(\<not> list_ex has_red_gem statuses \<or> (length ?flags > 0 \<and> list_all (\<lambda>f. f) ?flags) \<or> ?due)
               \<and> \<not> click_performed"
  let ?fire = "\<not> click_performed \<and>
                   ((\<forall>s\<in>set statuses. \<not> has_red_gem s) \<or>
                    ((\<exists>s\<in>set statuses. start_disabled s \<noteq> None) \<and>
                     (\<forall>s\<in>set statuses. start_disabled s \<noteq> None \<longrightarrow> start_disabled s = Some True)) \<or>
                    (0 < refresh_interval (timing config) \<and>
                     refresh_interval (timing config) \<le> now - last_refresh_ts st))"
  have eq: "?code \<longleftrightarrow> ?fire"
    unfolding flags_nonempty flags_all list_ex_iff by blast
  have unfold: "AutomationEngine_handle_refresh config ce now statuses click_performed st =
      (if ?code then Inr (st\<lparr>clicked := clicked st @ [refresh_button config], last_refresh_ts := now\<rparr>)
       else Inr st)"
    by (simp only: AutomationEngine_handle_refresh_def Let_def click_ready [OF assms]
        sleep_ready [OF assms] sum.case)
  show ?thesis
    by (simp only: unfold eq if_distrib [of Inr])
qed

text \<open>
  C2. With a working click backend, \<open>_handle_trades\<close> clicks the start button of exactly
  those trades whose status has \<open>has_red_gem\<close> and whose \<open>start_active\<close> is unset or
  true, once each and in the order of the configuration; a trade whose \<open>start_active\<close> is
  false gets no click; and it returns true exactly when it has clicked at least once.
\<close>

theorem handle_trades_clicks:
  assumes "sink_ready config ce"
  shows "AutomationEngine_handle_trades config ce statuses st =
           (let clicks =
                  map (\<lambda>(trade, status). start_button trade)
                    (filter (\<lambda>(trade, status). has_red_gem status \<and>
                               (start_active status = None \<or> start_active status = Some True))
                       (zip (trades config) statuses))
            in Inr (clicks \<noteq> [], st\<lparr>clicked := clicked st @ clicks\<rparr>))"
  using handle_trades_ready [OF assms, of statuses st]
  by (simp add: start_clicks_def Let_def)

text \<open>
  C9. With a working click backend every cycle runs \<open>_handle_collect\<close> between
  \<open>_handle_trades\<close> and \<open>_handle_refresh\<close>, whether or not a trade was clicked, and on
  the collect timestamp the cycle started with: with an interval of at most 0 it clicks
  nothing; with a positive interval that has elapsed since the last collect click it clicks
  the collect button exactly once and sets the timestamp to the current time; otherwise it
  clicks nothing and leaves the timestamp. The rest of the cycle leaves the collect
  timestamp alone and adds at most the refresh click.
\<close>

theorem collect_trigger:
  assumes "sink_ready config ce"
  shows "\<exists>statuses dm1 click_performed st1 st2 st3.
           DetectionManager_evaluate_all ev config dm = (statuses, dm1) \<and>
           AutomationEngine_handle_trades config ce statuses (st\<lparr>last_statuses := statuses\<rparr>) =
             Inr (click_performed, st1) \<and>
           (click_performed \<longleftrightarrow> clicked st1 \<noteq> clicked st) \<and>
           last_collect_ts st1 = last_collect_ts st \<and>
           AutomationEngine_handle_collect config ce now_collect st1 = Inr st2 \<and>
           st2 = (if collect_interval (timing config) \<le> 0 then st1
                  else if collect_interval (timing config) \<le> now_collect - last_collect_ts st
                  then st1\<lparr>clicked := clicked st1 @ [collect_button config],
                           last_collect_ts := now_collect\<rparr>
                  else st1) \<and>
           AutomationEngine_handle_refresh config ce now_refresh statuses click_performed st2 =
             Inr st3 \<and>
           last_collect_ts st3 = last_collect_ts st2 \<and>
           (clicked st3 = clicked st2 \<or> clicked st3 = clicked st2 @ [refresh_button config]) \<and>
           AutomationEngine_run_cycle ev config ce now_collect now_refresh (dm, st) =
             Inr (dm1, st3)"
proof -
  obtain statuses dm1 where ea: "DetectionManager_evaluate_all ev config dm = (statuses, dm1)"
    by (cases "DetectionManager_evaluate_all ev config dm")
  let ?st0 = "st\<lparr>last_statuses := statuses\<rparr>"
  let ?cs = "start_clicks (zip (trades config) statuses)"
  let ?b = "?cs \<noteq> []"
  let ?st1 = "?st0\<lparr>clicked := clicked ?st0 @ ?cs\<rparr>"
  let ?st2 = "if collect_interval (timing config) \<le> 0 then ?st1
              else if collect_interval (timing config) \<le> now_collect - last_collect_ts st
              then ?st1\<lparr>clicked := clicked ?st1 @ [collect_button config],
                        last_collect_ts := now_collect\<rparr>
              else ?st1"
  have ht: "AutomationEngine_handle_trades config ce statuses ?st0 = Inr (?b, ?st1)"
    by (rule handle_trades_ready [OF assms])
  have b: "?b \<longleftrightarrow> clicked ?st1 \<noteq> clicked st" by simp
  have ts: "last_collect_ts ?st1 = last_collect_ts st" by simp
  have hc: "AutomationEngine_handle_collect config ce now_collect ?st1 = Inr ?st2"
    by (simp add: handle_collect_ready [OF assms])
  have st2: "?st2 = ?st2" by (rule refl)
  obtain st3 where hr:
    "AutomationEngine_handle_refresh config ce now_refresh statuses ?b ?st2 = Inr st3"
    by (simp add: handle_refresh_ready [OF assms])
  have st3: "last_collect_ts st3 = last_collect_ts ?st2 \<and>
             (clicked st3 = clicked ?st2 \<or> clicked st3 = clicked ?st2 @ [refresh_button config])"
    using hr unfolding handle_refresh_ready [OF assms]
    by (auto split: if_splits)
  have rc: "AutomationEngine_run_cycle ev config ce now_collect now_refresh (dm, st) =
              Inr (dm1, st3)"
    using ht hc hr by (simp add: AutomationEngine_run_cycle_def ea Let_def)
  show ?thesis
    apply (rule exI [of _ statuses], rule exI [of _ dm1], rule exI [of _ ?b],
        rule exI [of _ ?st1], rule exI [of _ ?st2], rule exI [of _ st3])
    apply (intro conjI)
             apply (rule ea)
            apply (rule ht)
           apply (rule b)
          apply (rule ts)
         apply (rule hc)
        apply (rule st2)
       apply (rule hr)
      apply (rule conjunct1 [OF st3])
     apply (rule conjunct2 [OF st3])
    apply (rule rc)
    done
qed

text \<open>
  C1, amended. With a working click backend, a cycle clicks the refresh button (once, and
  sets the refresh timestamp to the current time) exactly when \<open>_handle_trades\<close> has
  clicked nothing in the cycle and (a) no status has \<open>has_red_gem\<close>, or (b) some status
  reports a disabled flag and every reported flag is true, or (c) the refresh interval is
  greater than 0 and has elapsed since the last refresh click. After a trade click the
  cycle never clicks refresh.
\<close>

theorem refresh_trigger:
  assumes "sink_ready config ce"
  shows "\<exists>statuses dm1 click_performed st1 st2.
           DetectionManager_evaluate_all ev config dm = (statuses, dm1) \<and>
           AutomationEngine_handle_trades config ce statuses (st\<lparr>last_statuses := statuses\<rparr>) =
             Inr (click_performed, st1) \<and>
           (click_performed \<longleftrightarrow> clicked st1 \<noteq> clicked st) \<and>
           AutomationEngine_handle_collect config ce now_collect st1 = Inr st2 \<and>
           AutomationEngine_run_cycle ev config ce now_collect now_refresh (dm, st) =
             Inr (dm1,
                  if \<not> click_performed \<and>
                     ((\<forall>s\<in>set statuses. \<not> has_red_gem s) \<or>
                      ((\<exists>s\<in>set statuses. start_disabled s \<noteq> None) \<and>
                       (\<forall>s\<in>set statuses. start_disabled s \<noteq> None \<longrightarrow> start_disabled s = Some True)) \<or>
                      (0 < refresh_interval (timing config) \<and>
                       refresh_interval (timing config) \<le> now_refresh - last_refresh_ts st2))
                  then st2\<lparr>clicked := clicked st2 @ [refresh_button config],
                           last_refresh_ts := now_refresh\<rparr>
                  else st2)"
proof -
  obtain statuses dm1 where ea: "DetectionManager_evaluate_all ev config dm = (statuses, dm1)"
    by (cases "DetectionManager_evaluate_all ev config dm")
  let ?st0 = "st\<lparr>last_statuses := statuses\<rparr>"
  let ?cs = "start_clicks (zip (trades config) statuses)"
  let ?st1 = "?st0\<lparr>clicked := clicked ?st0 @ ?cs\<rparr>"
  have ht: "AutomationEngine_handle_trades config ce statuses ?st0 = Inr (?cs \<noteq> [], ?st1)"
    by (rule handle_trades_ready [OF assms])
  obtain st2 where hc: "AutomationEngine_handle_collect config ce now_collect ?st1 = Inr st2"
    by (simp add: handle_collect_ready [OF assms])
  have b: "(?cs \<noteq> []) \<longleftrightarrow> clicked ?st1 \<noteq> clicked st" by simp
  have rc: "AutomationEngine_run_cycle ev config ce now_collect now_refresh (dm, st) =
              (case AutomationEngine_handle_refresh config ce now_refresh statuses (?cs \<noteq> []) st2 of
                 Inl e \<Rightarrow> Inl e
               | Inr st3 \<Rightarrow> Inr (dm1, st3))"
    using ht hc by (simp add: AutomationEngine_run_cycle_def ea Let_def)
  show ?thesis
    apply (rule exI [of _ statuses], rule exI [of _ dm1], rule exI [of _ "?cs \<noteq> []"],
        rule exI [of _ ?st1], rule exI [of _ st2])
    apply (intro conjI)
        apply (rule ea)
       apply (rule ht)
      apply (rule b)
     apply (rule hc)
    apply (simp only: rc handle_refresh_ready [OF assms] sum.case)
    done
qed

lemma sample_ready: "sink_ready sample_app sample_executor"
  by (simp add: sink_ready_def sample_executor_def ClickExecutor_init_def sample_app_def)


theorem handle_trades_clicks_witness:
  "AutomationEngine_handle_trades sample_app sample_executor
     [ready_status, inactive_status] AutomationEngine_init =
   Inr (True, AutomationEngine_init\<lparr>clicked := [\<lparr>x = 5, y = 5\<rparr>]\<rparr>)"
  using handle_trades_clicks [OF sample_ready, of "[ready_status, inactive_status]" AutomationEngine_init]
  by (simp add: sample_app_def sample_trade_def ready_status_def inactive_status_def
      AutomationEngine_init_def)

lemma sample_statuses:
  "DetectionManager_evaluate_all sample_env sample_app (DetectionManager_init sample_app) =
   ([\<lparr>name = ''t1'', red_ratio = 1, has_red_gem = True, start_active = Some True,
       start_disabled = None, template_score = Some 1\<rparr>,
     \<lparr>name = ''t2'', red_ratio = 1, has_red_gem = True, start_active = None,
       start_disabled = None, template_score = None\<rparr>],
    \<lparr>template_matcher =
       \<lparr>matcher_templates = [(''start'', sample_config)],
        cache = [''start'' \<mapsto> (sample_template, 4 / 5)]\<rparr>,
     last_frames = [''t1'' \<mapsto> blank_frame 2 2, ''t2'' \<mapsto> blank_frame 2 2]\<rparr>)"
  by (simp add: DetectionManager_evaluate_all_def DetectionManager_evaluate_trade_def
      sample_env_def sample_app_def sample_trade_def DetectionManager_init_def
      TemplateMatcher_init_def ScreenGrabber_grab_def ScreenGrabber_bounded_region_def
      cvtColor_def size_nd_def map_nd_def ColorDetector_red_ratio_def Let_def zeros_def
      truthy_def TemplateMatcher_is_configured_def TemplateMatcher_match_def
      TemplateMatcher_load_template_def sample_config_def bitwise_or_def count_nonzero_def
      positions_def inRange_def in_bounds_def COLOR_BGRA2BGR_def matchTemplate_def
      minMaxLoc_max_def sample_template_def blank_frame_def)

theorem collect_trigger_witness:
  "\<exists>dm1 st3.
     AutomationEngine_run_cycle sample_env sample_app sample_executor 1000 1000
       (DetectionManager_init sample_app, AutomationEngine_init) = Inr (dm1, st3) \<and>
     last_collect_ts st3 = 1000 \<and>
     (clicked st3 = [\<lparr>x = 5, y = 5\<rparr>, \<lparr>x = 5, y = 5\<rparr>, \<lparr>x = 10, y = 10\<rparr>] \<or>
      clicked st3 =
        [\<lparr>x = 5, y = 5\<rparr>, \<lparr>x = 5, y = 5\<rparr>, \<lparr>x = 10, y = 10\<rparr>] @ [\<lparr>x = 20, y = 20\<rparr>])"
proof -
  from collect_trigger [OF sample_ready, of sample_env "DetectionManager_init sample_app"
      AutomationEngine_init 1000 1000]
  obtain statuses dm1 b st1 st2 st3 where
    ea: "DetectionManager_evaluate_all sample_env sample_app (DetectionManager_init sample_app) =
           (statuses, dm1)"
    and ht: "AutomationEngine_handle_trades sample_app sample_executor statuses
               (AutomationEngine_init\<lparr>last_statuses := statuses\<rparr>) = Inr (b, st1)"
    and ts: "last_collect_ts st1 = last_collect_ts AutomationEngine_init"
    and st2: "st2 = (if collect_interval (timing sample_app) \<le> 0 then st1
                  else if collect_interval (timing sample_app) \<le> 1000 - last_collect_ts AutomationEngine_init
                  then st1\<lparr>clicked := clicked st1 @ [collect_button sample_app],
                           last_collect_ts := 1000\<rparr>
                  else st1)"
    and keep: "last_collect_ts st3 = last_collect_ts st2"
    and after: "clicked st3 = clicked st2 \<or> clicked st3 = clicked st2 @ [refresh_button sample_app]"
    and rc: "AutomationEngine_run_cycle sample_env sample_app sample_executor 1000 1000
               (DetectionManager_init sample_app, AutomationEngine_init) = Inr (dm1, st3)"
    by blast
  have cs: "clicked st1 = [\<lparr>x = 5, y = 5\<rparr>, \<lparr>x = 5, y = 5\<rparr>]"
    using ht ea unfolding sample_statuses handle_trades_ready [OF sample_ready]
    by (auto simp: start_clicks_def sample_app_def sample_trade_def AutomationEngine_init_def)
  have s2: "st2 = st1\<lparr>clicked := clicked st1 @ [\<lparr>x = 10, y = 10\<rparr>], last_collect_ts := 1000\<rparr>"
    unfolding st2 by (simp add: sample_app_def AutomationEngine_init_def)
  have "last_collect_ts st3 = 1000"
    using keep s2 by simp
  moreover have "clicked st3 = [\<lparr>x = 5, y = 5\<rparr>, \<lparr>x = 5, y = 5\<rparr>, \<lparr>x = 10, y = 10\<rparr>] \<or>
      clicked st3 =
        [\<lparr>x = 5, y = 5\<rparr>, \<lparr>x = 5, y = 5\<rparr>, \<lparr>x = 10, y = 10\<rparr>] @ [\<lparr>x = 20, y = 20\<rparr>]"
    using after unfolding s2 by (simp add: cs sample_app_def)
  ultimately show ?thesis
    using rc by blast
qed

theorem refresh_trigger_witness:
  "\<exists>dm1 st3.
     AutomationEngine_run_cycle sample_env sample_app sample_executor 1000 1000
       (DetectionManager_init sample_app, AutomationEngine_init) = Inr (dm1, st3)"
  using refresh_trigger [OF sample_ready, of sample_env "DetectionManager_init sample_app"
      AutomationEngine_init 1000 1000]
  by blast

text \<open>
  C1, as stated, fails for a refresh interval of 0: one trade shows red with an inactive
  start button, so no trade click is made; 100 seconds have passed since the last refresh,
  which is at least the interval; yet \<open>_handle_refresh\<close> clicks nothing.
\<close>

theorem refresh_interval_zero_no_refresh:
  "AutomationEngine_handle_trades zero_refresh_app sample_executor [inactive_status]
     AutomationEngine_init = Inr (False, AutomationEngine_init) \<and>
   AutomationEngine_handle_refresh zero_refresh_app sample_executor 100 [inactive_status] False
     AutomationEngine_init = Inr AutomationEngine_init \<and>
   refresh_interval (timing zero_refresh_app) \<le> 100 - last_refresh_ts AutomationEngine_init"
  by (simp add: AutomationEngine_handle_trades_def AutomationEngine_handle_refresh_def
      zero_refresh_app_def one_trade_app_def sample_app_def sample_trade_def inactive_status_def
      AutomationEngine_init_def Let_def)





end
